theory Spec2Isabelle
  imports Complex_Main "HOL-Library.Word"
begin

unbundle bit_operations_syntax

section \<open>Python values used by the soil sensor program\<close>

text \<open>
  The program imports \<open>machine\<close>, \<open>network\<close> and \<open>ubinascii\<close>: it runs on MicroPython,
  and it is modelled with MicroPython's behaviour where that differs from CPython's. A
  dictionary iterates in the order of its hash table's slots, not in insertion order;
  \<open>json.dumps\<close> writes the characters outside ASCII as they are; a name read before it
  is bound raises. The modules \<open>network\<close>, \<open>socket\<close>, \<open>time\<close> and \<open>machine\<close> are the
  outside world: what their calls return, and which of them raise, is an input of the
  model. So is the text that the build writes for a float.

  A \<open>str\<close> is a sequence of Unicode code points, so \<open>len\<close> counts code points; a
  \<open>bytes\<close> object is a sequence of 8-bit values. The two are kept apart, because the
  program measures the body as a \<open>str\<close> and sends it as \<open>bytes\<close>.

  A \<open>float\<close> is modelled by the rational number it denotes. The only floats of the
  program are \<open>raw / 65535 * 100\<close>, its rounding to one decimal, and the configured
  threshold. Lemma \<open>no_tie\<close> below shows that for a 16-bit reading the exact value of
  \<open>raw / 65535 * 100 * 10\<close> is never closer than \<open>1 / 131070\<close> to a half-integer, where
  \<open>round(_, 1)\<close> changes its result: far more than the error of double precision
  arithmetic on numbers up to 1000, so the digit that \<open>round\<close> picks there is the one
  computed here, whatever the rule for ties. A single precision build is not that
  exact: there a few readings round to the neighbouring tenth.
\<close>

type_synonym str = "nat list"
type_synonym bytes = "8 word list"

definition ascii :: "string \<Rightarrow> str" where
  "ascii s = map of_char s"

definition lit :: "string \<Rightarrow> bytes" where
  "lit s = map of_char s"

subsection \<open>\<open>round(x, ndigits)\<close> and \<open>str(n)\<close>\<close>

definition round_half_even :: "rat \<Rightarrow> int" where
  "round_half_even y =
     (let f = \<lfloor>y\<rfloor>; d = y - of_int f in
      if d < 1 / 2 then f
      else if 1 / 2 < d then f + 1
      else if even f then f else f + 1)"

definition py_round :: "rat \<Rightarrow> nat \<Rightarrow> rat" where
  "py_round x ndigits = of_int (round_half_even (x * 10 ^ ndigits)) / 10 ^ ndigits"

fun str_nat :: "nat \<Rightarrow> str" where
  "str_nat n = (if n < 10 then [48 + n] else str_nat (n div 10) @ [48 + n mod 10])"

declare str_nat.simps [simp del]

subsection \<open>\<open>repr\<close> of a float\<close>

text \<open>
  What \<open>repr\<close> writes for a float depends on the build (its float width, its number of
  significant digits, its digit generation), and the source of it is not in the
  repository: it is a parameter of the model, the \<open>runtime\<close>. All that is fixed is that
  the text is made of printable ASCII characters: digits, a sign, a point, an exponent,
  or \<open>inf\<close> and \<open>nan\<close>.
\<close>

definition printable :: "str \<Rightarrow> bool" where
  "printable s = list_all (\<lambda>c. 32 \<le> c \<and> c \<le> 126) s"

typedef float_text = "{s :: str. printable s}"
  by (rule exI[of _ "[]"]) (simp add: printable_def)

record runtime =
  repr_float :: "rat \<Rightarrow> float_text"

definition float_repr :: "runtime \<Rightarrow> rat \<Rightarrow> str" where
  "float_repr rt x = Rep_float_text (repr_float rt x)"

subsection \<open>Exceptions and \<open>str.encode("utf-8")\<close>\<close>

text \<open>
  \<open>KeyboardInterrupt\<close> is not a subclass of \<open>Exception\<close>, the others are; \<open>except
  Exception\<close> catches those only. \<open>UnboundLocalError\<close> is what reading a local variable
  that was never assigned raises (MicroPython reports it as a \<open>NameError\<close>, of which it
  is a subclass).
\<close>

datatype exn =
    OSError int
  | MemoryError
  | UnboundLocalError
  | RuntimeError str
  | KeyboardInterrupt

fun is_exception :: "exn \<Rightarrow> bool" where
  "is_exception KeyboardInterrupt = False"
| "is_exception err = True"

definition utf8_char :: "nat \<Rightarrow> bytes" where
  "utf8_char c =
     (if c < 128 then [of_nat c]
      else if c < 2048 then [of_nat (192 + c div 64), of_nat (128 + c mod 64)]
      else if c < 65536 then
        [of_nat (224 + c div 4096), of_nat (128 + c div 64 mod 64), of_nat (128 + c mod 64)]
      else
        [of_nat (240 + c div 262144 mod 8), of_nat (128 + c div 4096 mod 64),
         of_nat (128 + c div 64 mod 64), of_nat (128 + c mod 64)])"

text \<open>
  A MicroPython \<open>str\<close> is held as its UTF-8 bytes, and \<open>encode\<close> hands them out: it
  does not raise.
\<close>

definition encode_utf8 :: "str \<Rightarrow> bytes" where
  "encode_utf8 s = concat (map utf8_char s)"

subsection \<open>The dictionary\<close>

text \<open>
  A MicroPython dictionary is an open-addressing hash table (\<open>py/map.c\<close>). A dictionary
  display with n items allocates n slots; an item is stored at the slot \<open>hash mod n\<close> or,
  when another key has it, at the next free slot, wrapping around; storing a key again
  replaces its value. Iteration goes through the slots in order. The hash of a string is
  \<open>qstr_compute_hash\<close> of its bytes (\<open>py/qstr.c\<close>): \<open>hash * 33 XOR byte\<close> from 5381 on,
  masked to 16 bits, and 1 in place of 0.
\<close>

definition hash_step :: "32 word \<Rightarrow> 8 word \<Rightarrow> 32 word" where
  "hash_step h b = (h * 33) XOR ucast b"

definition qstr_compute_hash :: "bytes \<Rightarrow> nat" where
  "qstr_compute_hash data =
     (let h = foldl hash_step 5381 data AND 65535 in if h = 0 then 1 else unat h)"

text \<open>
  The slot for a key, looking at no more than \<open>fuel\<close> slots from \<open>pos\<close> on: the first
  one that is free or holds the key.
\<close>

fun find_slot :: "(str \<times> 'v) option list \<Rightarrow> str \<Rightarrow> nat \<Rightarrow> nat \<Rightarrow> nat option" where
  "find_slot table k pos 0 = None"
| "find_slot table k pos (Suc fuel) =
     (case table ! pos of
        None \<Rightarrow> Some pos
      | Some (k', v) \<Rightarrow>
          if k' = k then Some pos else find_slot table k ((pos + 1) mod length table) fuel)"

text \<open>
  Storing an item. A table without a slot for the key would be enlarged; that does not
  happen to the table of a display, which has a slot for each of its items, and is left
  out.
\<close>

definition dict_store :: "(str \<times> 'v) option list \<Rightarrow> str \<times> 'v \<Rightarrow> (str \<times> 'v) option list" where
  "dict_store table kv =
     (if table = [] then table
      else (case find_slot table (fst kv)
                   (qstr_compute_hash (encode_utf8 (fst kv)) mod length table) (length table) of
              None \<Rightarrow> table
            | Some pos \<Rightarrow> table[pos := Some kv]))"

text \<open>The dictionary display \<open>{k1: v1, ..., kn: vn}\<close> and the iteration over its items.\<close>

definition dict_display :: "(str \<times> 'v) list \<Rightarrow> (str \<times> 'v) option list" where
  "dict_display items = foldl dict_store (replicate (length items) None) items"

definition dict_items :: "(str \<times> 'v) option list \<Rightarrow> (str \<times> 'v) list" where
  "dict_items table = concat (map (\<lambda>slot. case slot of None \<Rightarrow> [] | Some kv \<Rightarrow> [kv]) table)"

subsection \<open>\<open>json.dumps\<close>\<close>

text \<open>
  MicroPython's \<open>json.dumps\<close> prints the object in its JSON form: the items of a
  dictionary in iteration order, separated by \<open>", "\<close> and \<open>": "\<close>. A string is printed by
  \<open>mp_str_print_json\<close> (\<open>py/objstr.c\<close>): the double quote (34) and the backslash (92) get
  a backslash, every other character from 32 on is written as it is, also outside ASCII,
  and a control character is written as a backslash and \<open>n\<close>, \<open>r\<close> or \<open>t\<close> for line feed,
  carriage return and tab, as a \<open>u\<close> escape with four hexadecimal digits otherwise.
\<close>

datatype json = JStr str | JFloat rat | JBool bool

definition hex_digit :: "nat \<Rightarrow> nat" where
  "hex_digit d = (if d < 10 then 48 + d else 87 + d)"

definition u_escape :: "nat \<Rightarrow> str" where
  "u_escape n =
     [92, 117, hex_digit (n div 4096 mod 16), hex_digit (n div 256 mod 16),
      hex_digit (n div 16 mod 16), hex_digit (n mod 16)]"

definition escape_json :: "nat \<Rightarrow> str" where
  "escape_json c =
     (if c = 34 \<or> c = 92 then [92, c]
      else if 32 \<le> c then [c]
      else if c = 10 then [92, 110]
      else if c = 13 then [92, 114]
      else if c = 9 then [92, 116]
      else u_escape c)"

definition mp_str_print_json :: "str \<Rightarrow> str" where
  "mp_str_print_json s = [34] @ concat (map escape_json s) @ [34]"

fun json_value :: "runtime \<Rightarrow> json \<Rightarrow> str" where
  "json_value rt (JStr s) = mp_str_print_json s"
| "json_value rt (JFloat x) = float_repr rt x"
| "json_value rt (JBool b) = (if b then ascii ''true'' else ascii ''false'')"

definition json_item :: "runtime \<Rightarrow> str \<times> json \<Rightarrow> str" where
  "json_item rt kv = mp_str_print_json (fst kv) @ ascii '': '' @ json_value rt (snd kv)"

fun json_items :: "runtime \<Rightarrow> (str \<times> json) list \<Rightarrow> str" where
  "json_items rt [] = []"
| "json_items rt [kv] = json_item rt kv"
| "json_items rt (kv # rest) = json_item rt kv @ ascii '', '' @ json_items rt rest"

text \<open>\<open>json.dumps\<close> of a dictionary display with the given items.\<close>

definition json_dumps :: "runtime \<Rightarrow> (str \<times> json) list \<Rightarrow> str" where
  "json_dumps rt d = ascii ''{'' @ json_items rt (dict_items (dict_display d)) @ ascii ''}''"

section \<open>Configuration, environment and effects\<close>

record config =
  PLANT_NAME :: str
  MAX_DRYNESS_PERCENTAGE :: rat
  SSID :: str
  PASSWORD :: str
  MAX_WIFI_CONNECTION_ATTEMPTS :: int
  LISTENING_PORT :: nat

definition module_config :: config where
  "module_config =
     \<lparr>PLANT_NAME = ascii ''Andrew's Yucca Plant'',
      MAX_DRYNESS_PERCENTAGE = 60,
      SSID = ascii ''Fast Internet'',
      PASSWORD = ascii ''your_wifi_password'',
      MAX_WIFI_CONNECTION_ATTEMPTS = 30,
      LISTENING_PORT = 80\<rparr>"

text \<open>
  A client connection as \<open>listener.accept()\<close> returns it: a handle and the request bytes
  the client has written to it. The program has no \<open>recv\<close>, so nothing reads \<open>request\<close>.
\<close>

record conn =
  fd :: nat
  request :: bytes

text \<open>
  The calls of \<open>main_loop\<close> that can raise, in program order. \<open>Handler_close\<close> and
  \<open>Handler_print\<close> are the two calls of the \<open>except\<close> block.
\<close>

datatype site =
    Accept | Print_request | Read_u16 | Json_dumps | Build_response | Send
  | Print_sent | Sleep | Close | Handler_close | Handler_print

text \<open>
  What the outside world does during one run of \<open>main_loop\<close>: which calls raise and
  what, the connection and remote address \<open>accept\<close> returns, and the value
  \<open>DATA_PIN.read_u16()\<close> returns, a 16-bit unsigned integer.
\<close>

record env =
  fails :: "site \<Rightarrow> exn option"
  accepted :: "conn \<times> (str \<times> nat)"
  raw :: "16 word"

text \<open>
  What the network interface does during \<open>connect_to_wifi\<close>: the value of the k-th call
  of \<open>wlan.status()\<close>, the tuple \<open>wlan.ifconfig()\<close> returns and the MAC address.
  The interface calls are taken not to raise; \<open>wlan.active(True)\<close> and
  \<open>wlan.connect(SSID, PASSWORD)\<close> start the association and change nothing that the model
  records.
\<close>

record wifi_env =
  status :: "nat \<Rightarrow> int"
  ifconfig :: "str \<times> str \<times> str \<times> str"
  mac :: str

text \<open>Console lines, one constructor per \<open>print\<close> of the program with its interpolated values.\<close>

datatype event =
    Connecting str
  | Mac_address str
  | Waiting
  | Connected str
  | Ip_address str
  | Request_received str
  | Sent_to str bytes
  | Connection_closed exn

record world =
  console :: "event list"
  sent :: "(conn \<times> bytes) list"
  closed :: "conn list"
  slept :: nat
  status_reads :: nat

definition py_print :: "event \<Rightarrow> world \<Rightarrow> world" where
  "py_print ev w = w\<lparr>console := console w @ [ev]\<rparr>"

definition sleep :: "nat \<Rightarrow> world \<Rightarrow> world" where
  "sleep n w = w\<lparr>slept := slept w + n\<rparr>"

definition send :: "conn \<Rightarrow> bytes \<Rightarrow> world \<Rightarrow> world" where
  "send c b w = w\<lparr>sent := sent w @ [(c, b)]\<rparr>"

definition close :: "conn \<Rightarrow> world \<Rightarrow> world" where
  "close c w = w\<lparr>closed := closed w @ [c]\<rparr>"

section \<open>The program\<close>

subsection \<open>\<open>connect_to_wifi\<close>\<close>

text \<open>
  The \<open>while max_wait > 0\<close> loop. \<open>wlan.status() < 0 or wlan.status() >= 3\<close> calls
  \<open>status\<close> once when the first value is negative and twice otherwise.
\<close>

definition read_status :: "wifi_env \<Rightarrow> world \<Rightarrow> int \<times> world" where
  "read_status we w = (status we (status_reads w), w\<lparr>status_reads := status_reads w + 1\<rparr>)"

function wait_loop :: "wifi_env \<Rightarrow> int \<Rightarrow> world \<Rightarrow> world" where
  "wait_loop we max_wait w =
     (if max_wait > 0 then
        (case read_status we w of (s1, w1) \<Rightarrow>
           if s1 < 0 then w1
           else (case read_status we w1 of (s2, w2) \<Rightarrow>
             if s2 \<ge> 3 then w2
             else wait_loop we (max_wait - 1) (sleep 1 (py_print Waiting w2))))
      else w)"
  by pat_completeness auto
termination
  by (relation "measure (\<lambda>(we, max_wait, w). nat max_wait)") auto

declare wait_loop.simps [simp del]

definition connect_to_wifi :: "config \<Rightarrow> wifi_env \<Rightarrow> world \<Rightarrow> (exn + str) \<times> world" where
  "connect_to_wifi cfg we w =
     (let w0 = py_print (Mac_address (mac we)) (py_print (Connecting (SSID cfg)) w);
          w1 = wait_loop we (MAX_WIFI_CONNECTION_ATTEMPTS cfg) w0
      in case read_status we w1 of (s, w2) \<Rightarrow>
        if s \<noteq> 3 then (Inl (RuntimeError (ascii ''Network connection failed!'')), w2)
        else (let ip_address = fst (ifconfig we)
              in (Inr ip_address,
                  py_print (Ip_address ip_address) (py_print (Connected (SSID cfg)) w2))))"

subsection \<open>\<open>get_soil_data\<close>\<close>

definition get_soil_data :: "config \<Rightarrow> env \<Rightarrow> exn + (rat \<times> bool)" where
  "get_soil_data cfg e =
     (case fails e Read_u16 of
        Some err \<Rightarrow> Inl err
      | None \<Rightarrow>
          (let value = py_round (of_nat (unat (raw e)) / 65535 * 100) 1
           in Inr (value, value > MAX_DRYNESS_PERCENTAGE cfg)))"

subsection \<open>\<open>main_loop\<close>\<close>

definition result_json :: "runtime \<Rightarrow> config \<Rightarrow> rat \<Rightarrow> bool \<Rightarrow> str" where
  "result_json rt cfg dryness is_too_dry =
     json_dumps rt
       [(ascii ''plant'', JStr (PLANT_NAME cfg)),
        (ascii ''dryness_percent'', JFloat dryness),
        (ascii ''max_allowable_dryness'', JFloat (MAX_DRYNESS_PERCENTAGE cfg)),
        (ascii ''is_plant_too_dry'', JBool is_too_dry)]"

definition content_length :: "str \<Rightarrow> str" where
  "content_length result = str_nat (length result)"

definition response_text :: "str \<Rightarrow> str" where
  "response_text result =
     ascii ''HTTP/1.1 200 OK\<newline>''
     @ ascii ''Content-Length: '' @ content_length result @ ascii ''\<newline>''
     @ ascii ''Content-Type: application/json\<newline>\<newline>''
     @ result @ ascii ''\<newline>''"

text \<open>
  The \<open>try\<close> block. It returns the binding of the local variable \<open>client\<close> (\<open>None\<close>
  while \<open>accept\<close> has not returned), the exception that ended the block if one did, and
  the world. A call that raises has no effect on the world.
\<close>

definition try_block ::
  "runtime \<Rightarrow> config \<Rightarrow> env \<Rightarrow> world \<Rightarrow> conn option \<times> exn option \<times> world" where
  "try_block rt cfg e w =
     (case fails e Accept of Some err \<Rightarrow> (None, Some err, w) | None \<Rightarrow>
      (case accepted e of (client, addr) \<Rightarrow>
      (case addr of (request_ip, port) \<Rightarrow>
      (case fails e Print_request of Some err \<Rightarrow> (Some client, Some err, w) | None \<Rightarrow>
      (let w1 = py_print (Request_received request_ip) w in
      (case get_soil_data cfg e of Inl err \<Rightarrow> (Some client, Some err, w1)
       | Inr (dryness, is_too_dry) \<Rightarrow>
      (case fails e Json_dumps of Some err \<Rightarrow> (Some client, Some err, w1) | None \<Rightarrow>
      (let result = result_json rt cfg dryness is_too_dry in
      (case fails e Build_response of Some err \<Rightarrow> (Some client, Some err, w1) | None \<Rightarrow>
      (let response = encode_utf8 (response_text result) in
      (case fails e Send of Some err \<Rightarrow> (Some client, Some err, w1) | None \<Rightarrow>
      (let w2 = send client response w1 in
      (case fails e Print_sent of Some err \<Rightarrow> (Some client, Some err, w2) | None \<Rightarrow>
      (let w3 = py_print (Sent_to request_ip response) w2 in
      (case fails e Sleep of Some err \<Rightarrow> (Some client, Some err, w3) | None \<Rightarrow>
      (let w4 = sleep 1 w3 in
      (case fails e Close of Some err \<Rightarrow> (Some client, Some err, w4) | None \<Rightarrow>
      (Some client, None, close client w4))))))))))))))))))"

text \<open>
  The \<open>except Exception as err\<close> block: \<open>client.close()\<close>, then the log line. With
  \<open>client\<close> unbound, \<open>client.close()\<close> raises \<open>UnboundLocalError\<close>.
\<close>

definition except_block :: "env \<Rightarrow> conn option \<Rightarrow> exn \<Rightarrow> world \<Rightarrow> (exn + unit) \<times> world" where
  "except_block e client err w =
     (case client of None \<Rightarrow> (Inl UnboundLocalError, w) | Some c \<Rightarrow>
      (case fails e Handler_close of Some err' \<Rightarrow> (Inl err', w) | None \<Rightarrow>
      (let w1 = close c w in
      (case fails e Handler_print of Some err' \<Rightarrow> (Inl err', w1) | None \<Rightarrow>
      (Inr (), py_print (Connection_closed err) w1)))))"

text \<open>
  \<open>main_loop\<close>: the \<open>try\<close> block, and the \<open>except\<close> block when the exception that ended
  it is an \<open>Exception\<close>; any other exception leaves \<open>main_loop\<close>.
\<close>

definition main_loop :: "runtime \<Rightarrow> config \<Rightarrow> env \<Rightarrow> world \<Rightarrow> (exn + unit) \<times> world" where
  "main_loop rt cfg e w =
     (case try_block rt cfg e w of (client, raised, w') \<Rightarrow>
        (case raised of
           None \<Rightarrow> (Inr (), w')
         | Some err \<Rightarrow>
             if is_exception err then except_block e client err w' else (Inl err, w')))"

subsection \<open>The \<open>while True\<close> loop of \<open>main\<close>\<close>

text \<open>
  \<open>main\<close> calls \<open>main_loop\<close> for ever. The loop is run here over the environments of
  the requests of a list, one per call; an exception that leaves \<open>main_loop\<close> leaves the
  loop, and the requests after it are not served.
\<close>

fun serve :: "runtime \<Rightarrow> config \<Rightarrow> env list \<Rightarrow> world \<Rightarrow> (exn + unit) \<times> world" where
  "serve rt cfg [] w = (Inr (), w)"
| "serve rt cfg (e # es) w =
     (case main_loop rt cfg e w of
        (Inl err, w') \<Rightarrow> (Inl err, w')
      | (Inr u, w') \<Rightarrow> serve rt cfg es w')"

section \<open>Notions used to state the properties\<close>

text \<open>A string without control characters: nothing below 32.\<close>

definition no_control :: "str \<Rightarrow> bool" where
  "no_control s = list_all (\<lambda>c. 32 \<le> c) s"

text \<open>The pieces of a byte string between the occurrences of a separator, as \<open>bytes.split\<close> gives them.\<close>

fun split_on :: "'a \<Rightarrow> 'a list \<Rightarrow> 'a list list" where
  "split_on x [] = [[]]"
| "split_on x (y # ys) =
     (if y = x then [] # split_on x ys
      else (case split_on x ys of [] \<Rightarrow> [[y]] | l # ls \<Rightarrow> (y # l) # ls))"

text \<open>
  The exception that ends the \<open>try\<close> block once \<open>accept\<close> has returned: the one of the
  first call, in program order, that raises.
\<close>

definition body_sites :: "site list" where
  "body_sites = [Print_request, Read_u16, Json_dumps, Build_response, Send, Print_sent, Sleep, Close]"

definition first_raise :: "env \<Rightarrow> exn option" where
  "first_raise e =
     (case find (\<lambda>s. fails e s \<noteq> None) body_sites of None \<Rightarrow> None | Some s \<Rightarrow> fails e s)"

text \<open>
  The tenths that \<open>round(n / 65535 * 100, 1)\<close> denotes, computed on integers: the
  quotient \<open>1000 * n / 65535\<close> rounded to the nearest integer, halves to the even one.
\<close>

definition tenths :: "nat \<Rightarrow> int" where
  "tenths n =
     (let q = 1000 * int n div 65535; m = 1000 * int n mod 65535 in
      if 2 * m < 65535 then q else if 65535 < 2 * m then q + 1
      else if even q then q else q + 1)"

subsection \<open>Concrete inputs\<close>

definition no_failure :: "site \<Rightarrow> exn option" where
  "no_failure s = None"

definition only :: "site \<Rightarrow> exn \<Rightarrow> site \<Rightarrow> exn option" where
  "only s err s' = (if s' = s then Some err else None)"

definition get_client :: conn where
  "get_client = \<lparr>fd = 4, request = lit ''GET / HTTP/1.1\<newline>\<newline>''\<rparr>"

definition post_client :: conn where
  "post_client = \<lparr>fd = 5, request = lit ''POST /water HTTP/1.1\<newline>\<newline>now''\<rparr>"

definition reading :: "16 word \<Rightarrow> env" where
  "reading r =
     \<lparr>fails = no_failure, accepted = (get_client, (ascii ''192.168.1.20'', 50314)), raw = r\<rparr>"

definition test_config :: config where
  "test_config = module_config\<lparr>PLANT_NAME := ascii ''Test Plant''\<rparr>"

text \<open>A second client, with another request and another address.\<close>

definition post_reading :: "16 word \<Rightarrow> env" where
  "post_reading r =
     \<lparr>fails = no_failure, accepted = (post_client, (ascii ''10.0.0.7'', 4242)), raw = r\<rparr>"

text \<open>
  A runtime whose \<open>repr\<close> writes the integer part, a point and the tenths digit. It is
  what every build writes for the floats 30.5, 60.0 and 76.3 of the runs below.
\<close>

definition one_decimal :: "rat \<Rightarrow> str" where
  "one_decimal x =
     (let t = nat \<lfloor>\<bar>x\<bar> * 10\<rfloor> in
      (if x < 0 then ascii ''-'' else []) @ str_nat (t div 10) @ ascii ''.'' @ str_nat (t mod 10))"

definition plain_runtime :: runtime where
  "plain_runtime = \<lparr>repr_float = (\<lambda>x. Abs_float_text (one_decimal x))\<rparr>"

text \<open>A request whose \<open>accept\<close> raises, and one whose \<open>send\<close> raises.\<close>

definition accept_fails :: env where
  "accept_fails = (reading 20000)\<lparr>fails := only Accept (OSError 103)\<rparr>"

definition send_fails :: env where
  "send_fails = (reading 20000)\<lparr>fails := only Send (OSError 104)\<rparr>"

text \<open>A request whose \<open>send\<close> raises, and then the \<open>client.close()\<close> of the \<open>except\<close> block.\<close>

definition send_and_close_fail :: env where
  "send_and_close_fail =
     (reading 20000)\<lparr>fails := (\<lambda>s. if s = Send then Some (OSError 104)
                                    else if s = Handler_close then Some (OSError 9) else None)\<rparr>"

text \<open>A request during whose pause the user interrupts the program.\<close>

definition interrupted :: env where
  "interrupted = (reading 20000)\<lparr>fails := only Sleep KeyboardInterrupt\<rparr>"

text \<open>A plant name with a character outside ASCII: "Cafe" with an acute accent on the last
  letter, which is code point 233 and two bytes in UTF-8.\<close>

definition cafe_config :: config where
  "cafe_config = module_config\<lparr>PLANT_NAME := [67, 97, 102, 233]\<rparr>"

definition world0 :: world where
  "world0 = \<lparr>console = [], sent = [], closed = [], slept = 0, status_reads = 0\<rparr>"

definition stuck_wifi :: wifi_env where
  "stuck_wifi =
     \<lparr>status = (\<lambda>k. 1),
      ifconfig = (ascii ''0.0.0.0'', ascii ''255.255.255.0'', ascii ''0.0.0.0'', ascii ''0.0.0.0''),
      mac = ascii ''28:cd:c1:00:00:01''\<rparr>"

text \<open>
  An interface that joins after two waits, and one that reports a failure (a negative
  status) after one.
\<close>

definition joining_wifi :: wifi_env where
  "joining_wifi =
     \<lparr>status = (\<lambda>k. if k < 4 then 1 else 3),
      ifconfig = (ascii ''192.168.1.50'', ascii ''255.255.255.0'', ascii ''192.168.1.1'', ascii ''192.168.1.1''),
      mac = ascii ''28:cd:c1:00:00:01''\<rparr>"

definition wrong_password_wifi :: wifi_env where
  "wrong_password_wifi =
     \<lparr>status = (\<lambda>k. if k < 2 then 1 else - 3),
      ifconfig = (ascii ''0.0.0.0'', ascii ''255.255.255.0'', ascii ''0.0.0.0'', ascii ''0.0.0.0''),
      mac = ascii ''28:cd:c1:00:00:01''\<rparr>"

section \<open>Arithmetic of the dryness percentage\<close>

text \<open>Rounding a quotient of integers is done with \<open>div\<close> and \<open>mod\<close>.\<close>

lemma round_half_even_div:
  assumes "0 < b"
  shows "round_half_even (of_int a / of_int b) =
     (let q = a div b; r = a mod b in
      if 2 * r < b then q else if b < 2 * r then q + 1 else if even q then q else q + 1)"
proof -
  define m where "m = a mod b"
  have fl: "\<lfloor>of_int a / of_int b :: rat\<rfloor> = a div b"
    by (simp add: floor_divide_of_int_eq)
  have "a = b * (a div b) + m" by (simp add: m_def)
  then have "(of_int a :: rat) = of_int b * of_int (a div b) + of_int m"
    by (metis of_int_add of_int_mult)
  then have d: "(of_int a / of_int b :: rat) - of_int (a div b) = of_int m / of_int b"
    using assms by (simp add: field_simps)
  have "(of_int (2 * m) :: rat) < of_int b \<longleftrightarrow> 2 * m < b" by (rule of_int_less_iff)
  then have lt: "(of_int m / of_int b :: rat) < 1 / 2 \<longleftrightarrow> 2 * m < b"
    using assms by (simp add: field_simps)
  have "(of_int b :: rat) < of_int (2 * m) \<longleftrightarrow> b < 2 * m" by (rule of_int_less_iff)
  then have gt: "1 / 2 < (of_int m / of_int b :: rat) \<longleftrightarrow> b < 2 * m"
    using assms by (simp add: field_simps)
  have "round_half_even (of_int a / of_int b) =
      (if 2 * m < b then a div b else if b < 2 * m then a div b + 1
       else if even (a div b) then a div b else a div b + 1)"
    by (simp only: round_half_even_def Let_def fl d lt gt)
  then show ?thesis by (simp only: Let_def m_def)
qed

lemma round_half_even_bounds:
  assumes "of_int lo \<le> y" "y \<le> of_int hi"
  shows "lo \<le> round_half_even y \<and> round_half_even y \<le> hi"
proof -
  have lo: "lo \<le> \<lfloor>y\<rfloor>" using assms(1) by (simp add: le_floor_iff)
  have hi: "\<lfloor>y\<rfloor> \<le> hi" using assms(2) by (simp add: floor_le_iff)
  show ?thesis
  proof (cases "\<lfloor>y\<rfloor> = hi")
    case True
    then have "y - of_int \<lfloor>y\<rfloor> \<le> 0" using assms(2) by simp
    then show ?thesis using lo True by (simp add: round_half_even_def Let_def)
  next
    case False
    then have "\<lfloor>y\<rfloor> + 1 \<le> hi" using hi by simp
    then show ?thesis using lo hi by (simp add: round_half_even_def Let_def)
  qed
qed

lemma percent_range:
  assumes "n \<le> 65535"
  shows "0 \<le> py_round (of_nat n / 65535 * 100) 1 \<and> py_round (of_nat n / 65535 * 100) 1 \<le> 100"
proof -
  let ?y = "of_nat n / 65535 * 100 * 10 ^ 1 :: rat"
  have "(of_nat n :: rat) \<le> 65535" using assms by (metis of_nat_le_iff of_nat_numeral)
  then have "of_int 0 \<le> ?y" "?y \<le> of_int 1000" by simp_all
  from round_half_even_bounds[OF this]
  have "0 \<le> round_half_even ?y" "round_half_even ?y \<le> 1000" by simp_all
  then have "(0::rat) \<le> of_int (round_half_even ?y)" "(of_int (round_half_even ?y) :: rat) \<le> 1000"
    by (simp_all add: of_int_le_iff[where 'a=rat and z=1000, simplified] del: of_int_le_iff)
  then show ?thesis by (simp add: py_round_def)
qed

lemma no_tie:
  "\<bar>of_nat n / 65535 * 100 * 10 - (of_int k + 1 / 2) :: rat\<bar> \<ge> 1 / 131070"
proof -
  have odd: "odd (2000 * int n - 65535 * (2 * k + 1))" by simp
  then have "2000 * int n - 65535 * (2 * k + 1) \<noteq> 0" by (metis even_zero)
  then have "1 \<le> \<bar>2000 * int n - 65535 * (2 * k + 1)\<bar>" by linarith
  then have "(1::rat) \<le> of_int \<bar>2000 * int n - 65535 * (2 * k + 1)\<bar>"
    by (metis of_int_1 of_int_le_iff)
  also have "(of_int \<bar>2000 * int n - 65535 * (2 * k + 1)\<bar> :: rat)
      = \<bar>of_nat n / 65535 * 100 * 10 - (of_int k + 1 / 2)\<bar> * 131070"
    by (simp add: abs_if field_simps)
  finally show ?thesis by simp
qed

lemma get_soil_data_ok:
  "fails e Read_u16 = None \<Longrightarrow>
   get_soil_data cfg e =
     Inr (py_round (of_nat (unat (raw e)) / 65535 * 100) 1,
          py_round (of_nat (unat (raw e)) / 65535 * 100) 1 > MAX_DRYNESS_PERCENTAGE cfg)"
  by (simp add: get_soil_data_def Let_def)

lemma percent_value:
  "py_round (of_nat n / 65535 * 100) 1 = of_int (tenths n) / 10"
proof -
  have "py_round (of_nat n / 65535 * 100) 1
      = of_int (round_half_even (of_nat n / 65535 * 100 * 10)) / 10"
    by (simp add: py_round_def)
  also have "of_nat n / 65535 * 100 * 10 = (of_int (1000 * int n) / of_int 65535 :: rat)"
    by simp
  also have "round_half_even (of_int (1000 * int n) / of_int 65535) = tenths n"
    unfolding tenths_def by (rule round_half_even_div) simp
  finally show ?thesis .
qed

lemma percent_at_0: "py_round (of_nat (unat (0 :: 16 word)) / 65535 * 100) 1 = 0"
proof -
  have u: "unat (0 :: 16 word) = 0" by simp
  show ?thesis by (simp only: u percent_value) (simp add: tenths_def)
qed

lemma percent_at_65535: "py_round (of_nat (unat (65535 :: 16 word)) / 65535 * 100) 1 = 100"
proof -
  have u: "unat (65535 :: 16 word) = 65535" by simp
  show ?thesis by (simp only: u percent_value) (simp add: tenths_def)
qed

lemma unat16: "unat (r :: 16 word) \<le> 65535"
  using unsigned_less[of r, where 'a=nat] by simp


section \<open>The JSON text has no control character\<close>

text \<open>
  Every character that \<open>json.dumps\<close> writes is 32 or above, so the text and its UTF-8
  encoding hold no line feed and no carriage return.
\<close>

lemma printable_append [simp]: "printable (a @ b) = (printable a \<and> printable b)"
  by (simp add: printable_def)

lemma printable_Cons [simp]: "printable (c # s) = (32 \<le> c \<and> c \<le> 126 \<and> printable s)"
  by (simp add: printable_def)

lemma printable_Nil [simp]: "printable []"
  by (simp add: printable_def)

lemma no_control_append [simp]: "no_control (a @ b) = (no_control a \<and> no_control b)"
  by (simp add: no_control_def)

lemma no_control_Cons [simp]: "no_control (c # s) = (32 \<le> c \<and> no_control s)"
  by (simp add: no_control_def)

lemma no_control_Nil [simp]: "no_control []"
  by (simp add: no_control_def)

lemma printable_no_control: "printable s \<Longrightarrow> no_control s"
  by (induction s) simp_all

lemma printable_str_nat: "printable (str_nat n)"
proof (induction n rule: str_nat.induct)
  case (1 n)
  show ?case
  proof (cases "n < 10")
    case True
    then show ?thesis by (simp add: str_nat.simps[of n])
  next
    case False
    have "n mod 10 < 10" by simp
    then have "48 + n mod 10 \<le> 126" by linarith
    with False 1 show ?thesis by (simp add: str_nat.simps[of n])
  qed
qed

lemma printable_float_repr: "printable (float_repr rt x)"
  using Rep_float_text[of "repr_float rt x"] by (simp add: float_repr_def)

lemma hex_digit_range: "d < 16 \<Longrightarrow> 32 \<le> hex_digit d \<and> hex_digit d \<le> 126"
  by (simp add: hex_digit_def)

lemma no_control_u_escape: "no_control (u_escape n)"
  by (simp add: u_escape_def hex_digit_range)

lemma no_control_escape_json: "no_control (escape_json c)"
  by (auto simp add: escape_json_def no_control_u_escape)

lemma no_control_concat: "(\<And>x. x \<in> set xs \<Longrightarrow> no_control (f x)) \<Longrightarrow> no_control (concat (map f xs))"
  by (induction xs) simp_all

lemma no_control_mp_str_print_json: "no_control (mp_str_print_json s)"
  by (simp add: mp_str_print_json_def no_control_concat no_control_escape_json)

lemma no_control_json_value: "no_control (json_value rt v)"
  by (cases v)
     (simp_all add: no_control_mp_str_print_json printable_no_control[OF printable_float_repr] ascii_def)

lemma no_control_json_item: "no_control (json_item rt kv)"
  by (simp add: json_item_def no_control_mp_str_print_json no_control_json_value ascii_def)

lemma no_control_json_items: "no_control (json_items rt d)"
  by (induction rt d rule: json_items.induct) (simp_all add: no_control_json_item ascii_def)

lemma no_control_json_dumps: "no_control (json_dumps rt d)"
  by (simp add: json_dumps_def no_control_json_items ascii_def)

lemma no_control_result_json: "no_control (result_json rt cfg dryness is_too_dry)"
  by (simp add: result_json_def no_control_json_dumps)

section \<open>UTF-8\<close>

lemma encode_utf8_append: "encode_utf8 (a @ b) = encode_utf8 a @ encode_utf8 b"
  by (simp add: encode_utf8_def)

lemma encode_utf8_below_128: "list_all (\<lambda>c. c < 128) s \<Longrightarrow> encode_utf8 s = map of_nat s"
  by (induction s) (simp_all add: encode_utf8_def utf8_char_def)

lemma printable_below_128: "printable s \<Longrightarrow> list_all (\<lambda>c. c < 128) s"
  by (induction s) simp_all

lemma bytes_of_ascii: "map of_nat (ascii s) = lit s"
  by (simp add: ascii_def lit_def of_nat_of_char)

lemma lit_append: "lit (a @ b) = lit a @ lit b"
  by (simp add: lit_def)

lemma length_ascii: "length (ascii s) = length s"
  by (simp add: ascii_def)

lemma byte_not_line_break:
  assumes "32 \<le> n" "n < 256"
  shows "(of_nat n :: 8 word) \<noteq> 10 \<and> (of_nat n :: 8 word) \<noteq> 13"
proof -
  have u: "unat (of_nat n :: 8 word) = n" using assms by (simp add: unat_of_nat)
  have "unat (of_nat n :: 8 word) \<noteq> unat (10 :: 8 word)"
    and "unat (of_nat n :: 8 word) \<noteq> unat (13 :: 8 word)"
    using assms unfolding u by simp_all
  then show ?thesis by metis
qed

lemma utf8_char_no_line_break:
  assumes "32 \<le> c"
  shows "(10 :: 8 word) \<notin> set (utf8_char c) \<and> (13 :: 8 word) \<notin> set (utf8_char c)"
proof -
  have m: "c mod 64 < 64" "c div 64 mod 64 < 64" "c div 4096 mod 64 < 64" "c div 262144 mod 8 < 8"
    by simp_all
  have a: "c < 2048 \<Longrightarrow> c div 64 < 32" and b: "c < 65536 \<Longrightarrow> c div 4096 < 16"
    by (simp_all add: less_mult_imp_div_less)
  have n1: "\<And>x. x < 64 \<Longrightarrow> (of_nat (128 + x) :: 8 word) \<noteq> 10 \<and> (of_nat (128 + x) :: 8 word) \<noteq> 13"
    by (rule byte_not_line_break) simp_all
  have n2: "\<And>x. x < 32 \<Longrightarrow> (of_nat (192 + x) :: 8 word) \<noteq> 10 \<and> (of_nat (192 + x) :: 8 word) \<noteq> 13"
    by (rule byte_not_line_break) simp_all
  have n3: "\<And>x. x < 16 \<Longrightarrow> (of_nat (224 + x) :: 8 word) \<noteq> 10 \<and> (of_nat (224 + x) :: 8 word) \<noteq> 13"
    by (rule byte_not_line_break) simp_all
  have n4: "\<And>x. x < 8 \<Longrightarrow> (of_nat (240 + x) :: 8 word) \<noteq> 10 \<and> (of_nat (240 + x) :: 8 word) \<noteq> 13"
    by (rule byte_not_line_break) simp_all
  have n0: "c < 128 \<Longrightarrow> (of_nat c :: 8 word) \<noteq> 10 \<and> (of_nat c :: 8 word) \<noteq> 13"
    using assms by (intro byte_not_line_break) simp_all
  show ?thesis
    unfolding utf8_char_def
    using n0 n1[OF m(1)] n1[OF m(2)] n1[OF m(3)] n2[OF a] n3[OF b] n4[OF m(4)]
    by (simp del: of_nat_add)
qed

lemma encode_utf8_no_line_break:
  "no_control s \<Longrightarrow> (10 :: 8 word) \<notin> set (encode_utf8 s) \<and> (13 :: 8 word) \<notin> set (encode_utf8 s)"
proof (induction s)
  case Nil
  then show ?case by (simp add: encode_utf8_def)
next
  case (Cons c s)
  then show ?case
    using utf8_char_no_line_break[of c] encode_utf8_append[of "[c]" s]
    by (simp add: encode_utf8_def)
qed

section \<open>The \<open>try\<close> block\<close>

text \<open>Once \<open>accept\<close> has returned, the block ends with the exception of the first call that raises.\<close>

lemma try_block_accept_fails:
  "fails e Accept = Some err \<Longrightarrow> try_block rt cfg e w = (None, Some err, w)"
  by (simp add: try_block_def)

lemma first_raise_unfold:
  "first_raise e =
    (case fails e Print_request of Some x \<Rightarrow> Some x | None \<Rightarrow>
     case fails e Read_u16 of Some x \<Rightarrow> Some x | None \<Rightarrow>
     case fails e Json_dumps of Some x \<Rightarrow> Some x | None \<Rightarrow>
     case fails e Build_response of Some x \<Rightarrow> Some x | None \<Rightarrow>
     case fails e Send of Some x \<Rightarrow> Some x | None \<Rightarrow>
     case fails e Print_sent of Some x \<Rightarrow> Some x | None \<Rightarrow>
     case fails e Sleep of Some x \<Rightarrow> Some x | None \<Rightarrow>
     fails e Close)"
  by (simp add: first_raise_def body_sites_def split: option.splits)

lemma try_block_raise:
  assumes "fails e Accept = None"
  shows "\<exists>w1. try_block rt cfg e w = (Some (fst (accepted e)), first_raise e, w1)"
  using assms
  by (simp add: try_block_def first_raise_unfold get_soil_data_def Let_def
      split: option.splits prod.splits)

lemma sent_simps:
  "sent (close c w) = sent w" "sent (sleep n w) = sent w" "sent (py_print ev w) = sent w"
  "sent (send c b w) = sent w @ [(c, b)]"
  by (simp_all add: close_def sleep_def py_print_def send_def)

lemma closed_simps:
  "closed (close c w) = closed w @ [c]" "closed (sleep n w) = closed w"
  "closed (py_print ev w) = closed w" "closed (send c b w) = closed w"
  by (simp_all add: close_def sleep_def py_print_def send_def)

lemma console_simps:
  "console (close c w) = console w" "console (sleep n w) = console w"
  "console (py_print ev w) = console w @ [ev]" "console (send c b w) = console w"
  by (simp_all add: close_def sleep_def py_print_def send_def)

lemma except_block_sent: "sent (snd (except_block e c err w)) = sent w"
  by (simp add: except_block_def sent_simps Let_def split: option.splits)

lemma main_loop_sent_try:
  "sent (snd (main_loop rt cfg e w)) = sent (snd (snd (try_block rt cfg e w)))"
  by (simp add: main_loop_def except_block_sent split: prod.splits option.splits)

lemma try_block_sent:
  "sent (snd (snd (try_block rt cfg e w))) =
     (if fails e Accept = None \<and> fails e Print_request = None \<and> fails e Read_u16 = None
         \<and> fails e Json_dumps = None \<and> fails e Build_response = None \<and> fails e Send = None
      then (let value = py_round (of_nat (unat (raw e)) / 65535 * 100) 1 in
            sent w @ [(fst (accepted e),
              encode_utf8 (response_text
                (result_json rt cfg value (value > MAX_DRYNESS_PERCENTAGE cfg))))])
      else sent w)"
  unfolding try_block_def get_soil_data_def Let_def
  by (auto simp add: sent_simps split: option.splits prod.splits)

lemma try_block_closed:
  "closed (snd (snd (try_block rt cfg e w))) =
     (if fails e Accept = None \<and> first_raise e = None then closed w @ [fst (accepted e)]
      else closed w)"
  unfolding try_block_def get_soil_data_def Let_def first_raise_unfold
  by (auto simp add: closed_simps split: option.splits prod.splits)

lemma main_loop_no_raise:
  "try_block rt cfg e w = (client, None, w') \<Longrightarrow> main_loop rt cfg e w = (Inr (), w')"
  by (simp add: main_loop_def)

section \<open>The response\<close>

lemma split_on_append: "x \<notin> set a \<Longrightarrow> split_on x (a @ x # b) = a # split_on x b"
  by (induction a) auto

lemma encode_ascii: "list_all (\<lambda>c. c < 128) (ascii s) \<Longrightarrow> encode_utf8 (ascii s) = lit s"
  by (simp add: encode_utf8_below_128 bytes_of_ascii)

lemma encode_status_line: "encode_utf8 (ascii ''HTTP/1.1 200 OK\<newline>'') = lit ''HTTP/1.1 200 OK'' @ [10]"
  by (simp add: encode_utf8_def utf8_char_def ascii_def lit_def)

lemma encode_length_name: "encode_utf8 (ascii ''Content-Length: '') = lit ''Content-Length: ''"
  by (simp add: encode_utf8_def utf8_char_def ascii_def lit_def)

lemma encode_type_line:
  "encode_utf8 (ascii ''Content-Type: application/json\<newline>\<newline>'') =
     lit ''Content-Type: application/json'' @ [10, 10]"
  by (simp add: encode_utf8_def utf8_char_def ascii_def lit_def)

lemma encode_newline: "encode_utf8 (ascii ''\<newline>'') = [10]"
  by (simp add: encode_utf8_def utf8_char_def ascii_def)

lemma encode_content_length: "encode_utf8 (content_length result) = map of_nat (content_length result)"
  by (simp add: content_length_def encode_utf8_below_128 printable_below_128 printable_str_nat)

lemma status_line_clean:
  "(10 :: 8 word) \<notin> set (lit ''HTTP/1.1 200 OK'') \<and> (13 :: 8 word) \<notin> set (lit ''HTTP/1.1 200 OK'')"
  by (simp add: lit_def)

lemma length_line_clean:
  "(10 :: 8 word) \<notin> set (lit ''Content-Length: '') \<and> (13 :: 8 word) \<notin> set (lit ''Content-Length: '')"
  by (simp add: lit_def)

lemma type_line_clean:
  "(10 :: 8 word) \<notin> set (lit ''Content-Type: application/json'')
   \<and> (13 :: 8 word) \<notin> set (lit ''Content-Type: application/json'')"
  by (simp add: lit_def)

lemma response_bytes:
  "encode_utf8 (response_text result) =
      lit ''HTTP/1.1 200 OK'' @ [10] @ lit ''Content-Length: '' @ map of_nat (content_length result)
      @ [10] @ lit ''Content-Type: application/json'' @ [10] @ [10] @ encode_utf8 result @ [10]"
  by (simp add: response_text_def encode_utf8_append encode_status_line encode_length_name
      encode_type_line encode_newline encode_content_length)

lemma response_lines:
  assumes "no_control result"
  shows "split_on 10 (encode_utf8 (response_text result)) =
      [lit ''HTTP/1.1 200 OK'', lit ''Content-Length: '' @ map of_nat (content_length result),
       lit ''Content-Type: application/json'', [], encode_utf8 result, []]"
  and "(13 :: 8 word) \<notin> set (encode_utf8 (response_text result))"
proof -
  have n1: "(10 :: 8 word) \<notin> set (encode_utf8 result)" "(13 :: 8 word) \<notin> set (encode_utf8 result)"
    using encode_utf8_no_line_break[OF assms] by simp_all
  have n2: "(10 :: 8 word) \<notin> set (map of_nat (content_length result))"
       "(13 :: 8 word) \<notin> set (map of_nat (content_length result))"
    using encode_utf8_no_line_break[OF printable_no_control[OF printable_str_nat[of "length result"]]]
    by (simp_all add: encode_content_length[unfolded content_length_def] content_length_def)
  have n3: "(10 :: 8 word) \<notin> set (lit ''Content-Length: '' @ map of_nat (content_length result))"
    using n2 length_line_clean by simp
  show "split_on 10 (encode_utf8 (response_text result)) =
      [lit ''HTTP/1.1 200 OK'', lit ''Content-Length: '' @ map of_nat (content_length result),
       lit ''Content-Type: application/json'', [], encode_utf8 result, []]"
    unfolding response_bytes
    using split_on_append[of 10 "lit ''HTTP/1.1 200 OK''"] status_line_clean
      split_on_append[of 10 "lit ''Content-Length: '' @ map of_nat (content_length result)"] n3
      split_on_append[of 10 "lit ''Content-Type: application/json''"] type_line_clean
      split_on_append[of 10 "encode_utf8 result" "[]"] n1
    by simp
  show "(13 :: 8 word) \<notin> set (encode_utf8 (response_text result))"
    unfolding response_bytes
    using n1 n2 status_line_clean length_line_clean type_line_clean by simp
qed

section \<open>Evaluation on concrete inputs\<close>

lemma printable_one_decimal: "printable (one_decimal x)"
  by (simp add: one_decimal_def Let_def printable_str_nat ascii_def)

lemma float_repr_plain: "float_repr plain_runtime x = one_decimal x"
  by (simp add: float_repr_def plain_runtime_def Abs_float_text_inverse printable_one_decimal)

lemma hash_keys:
  "qstr_compute_hash (encode_utf8 (ascii ''plant'')) = 42114"
  "qstr_compute_hash (encode_utf8 (ascii ''dryness_percent'')) = 45477"
  "qstr_compute_hash (encode_utf8 (ascii ''max_allowable_dryness'')) = 42566"
  "qstr_compute_hash (encode_utf8 (ascii ''is_plant_too_dry'')) = 19356"
  by (simp_all add: qstr_compute_hash_def hash_step_def encode_utf8_def utf8_char_def ascii_def)

lemma keys_differ:
  "ascii ''plant'' \<noteq> ascii ''max_allowable_dryness''"
  "ascii ''max_allowable_dryness'' \<noteq> ascii ''plant''"
  by (simp_all add: ascii_def)

lemma four: "length [a, b, c, d] = 4"
  by simp

lemma display_order:
  "dict_items (dict_display
     [(ascii ''plant'', a), (ascii ''dryness_percent'', b),
      (ascii ''max_allowable_dryness'', c), (ascii ''is_plant_too_dry'', d)]) =
     [(ascii ''is_plant_too_dry'', d), (ascii ''dryness_percent'', b),
      (ascii ''plant'', a), (ascii ''max_allowable_dryness'', c)]"
proof -
  let ?t0 = "[None, None, None, None] :: (str \<times> 'a) option list"
  have r: "replicate (length [(ascii ''plant'', a), (ascii ''dryness_percent'', b),
      (ascii ''max_allowable_dryness'', c), (ascii ''is_plant_too_dry'', d)]) None = ?t0"
    by (simp add: numeral_eq_Suc)
  have l: "\<And>(w :: (str \<times> 'a) option) x y z. length [w, x, y, z] = Suc (Suc (Suc (Suc 0)))" by simp
  have m: "(42114 :: nat) mod Suc (Suc (Suc (Suc 0))) = 2" "(45477 :: nat) mod Suc (Suc (Suc (Suc 0))) = 1"
    "(42566 :: nat) mod Suc (Suc (Suc (Suc 0))) = 2" "(19356 :: nat) mod Suc (Suc (Suc (Suc 0))) = 0"
    "Suc 2 mod Suc (Suc (Suc (Suc 0))) = 3"
    by (simp_all add: numeral_eq_Suc[symmetric] del: One_nat_def) 
  show ?thesis
    unfolding dict_display_def r
    by (simp add: dict_store_def hash_keys keys_differ m dict_items_def del: length_Cons)
qed

lemma reading_simps:
  "fails (reading r) s = None" "raw (reading r) = r"
  "accepted (reading r) = (get_client, (ascii ''192.168.1.20'', 50314))"
  by (simp_all add: reading_def no_failure_def)

lemma get_soil_data_reading:
  "get_soil_data cfg (reading r) =
     Inr (of_int (tenths (unat r)) / 10, of_int (tenths (unat r)) / 10 > MAX_DRYNESS_PERCENTAGE cfg)"
  by (simp only: get_soil_data_ok[OF reading_simps(1)] reading_simps percent_value)

lemma main_loop_sent_reading:
  "sent (snd (main_loop rt cfg (reading r) w)) =
     sent w @ [(get_client, encode_utf8 (response_text (result_json rt cfg
        (of_int (tenths (unat r)) / 10)
        (of_int (tenths (unat r)) / 10 > MAX_DRYNESS_PERCENTAGE cfg))))]"
  by (simp only: main_loop_sent_try try_block_sent reading_simps percent_value Let_def
        simp_thms if_True fst_conv)

lemmas json_eval =
  json_item_def mp_str_print_json_def escape_json_def ascii_def

section \<open>The response on concrete readings\<close>

lemma soil_20000: "get_soil_data test_config (reading 20000) = Inr (30.5, False)"
  by (simp add: get_soil_data_reading tenths_def test_config_def module_config_def)

lemma soil_50000: "get_soil_data test_config (reading 50000) = Inr (76.3, True)"
  by (simp add: get_soil_data_reading tenths_def test_config_def module_config_def)

lemma one_decimal_values:
  "one_decimal 30.5 = ascii ''30.5''" "one_decimal 60 = ascii ''60.0''"
  "one_decimal 76.3 = ascii ''76.3''"
  by (simp_all add: one_decimal_def ascii_def str_nat.simps)

lemma body_a:
  assumes "float_repr rt 30.5 = ascii ''30.5''" and "float_repr rt 60 = ascii ''60.0''"
  shows \<open>result_json rt test_config 30.5 False =
    ascii ''{"is_plant_too_dry": false, "dryness_percent": 30.5, "plant": "Test Plant", "max_allowable_dryness": 60.0}''\<close>
  using assms unfolding result_json_def json_dumps_def display_order
  by (simp add: json_eval test_config_def module_config_def)

lemma body_b:
  assumes "float_repr rt 76.3 = ascii ''76.3''" and "float_repr rt 60 = ascii ''60.0''"
  shows \<open>result_json rt test_config 76.3 True =
    ascii ''{"is_plant_too_dry": true, "dryness_percent": 76.3, "plant": "Test Plant", "max_allowable_dryness": 60.0}''\<close>
  using assms unfolding result_json_def json_dumps_def display_order
  by (simp add: json_eval test_config_def module_config_def)

lemma response_a: \<open>encode_utf8 (response_text (ascii ''{"is_plant_too_dry": false, "dryness_percent": 30.5, "plant": "Test Plant", "max_allowable_dryness": 60.0}'')) =
  lit ''HTTP/1.1 200 OK\<newline>Content-Length: 106\<newline>Content-Type: application/json\<newline>\<newline>{"is_plant_too_dry": false, "dryness_percent": 30.5, "plant": "Test Plant", "max_allowable_dryness": 60.0}\<newline>''\<close>
  unfolding response_bytes
  by (simp add: content_length_def length_ascii str_nat.simps
      encode_utf8_def utf8_char_def ascii_def lit_def)

lemma response_b: \<open>encode_utf8 (response_text (ascii ''{"is_plant_too_dry": true, "dryness_percent": 76.3, "plant": "Test Plant", "max_allowable_dryness": 60.0}'')) =
  lit ''HTTP/1.1 200 OK\<newline>Content-Length: 105\<newline>Content-Type: application/json\<newline>\<newline>{"is_plant_too_dry": true, "dryness_percent": 76.3, "plant": "Test Plant", "max_allowable_dryness": 60.0}\<newline>''\<close>
  unfolding response_bytes
  by (simp add: content_length_def length_ascii str_nat.simps
      encode_utf8_def utf8_char_def ascii_def lit_def)

lemma sent_a:
  assumes "float_repr rt 30.5 = ascii ''30.5''" and "float_repr rt 60 = ascii ''60.0''"
  shows \<open>sent (snd (main_loop rt test_config (reading 20000) world0)) =
     [(get_client, lit ''HTTP/1.1 200 OK\<newline>Content-Length: 106\<newline>Content-Type: application/json\<newline>\<newline>{"is_plant_too_dry": false, "dryness_percent": 30.5, "plant": "Test Plant", "max_allowable_dryness": 60.0}\<newline>'')]\<close>
proof -
  have v: "(of_int (tenths (unat (20000 :: 16 word))) / 10 :: rat) = 30.5"
    by (simp add: tenths_def)
  have d: "\<not> (30.5 :: rat) > MAX_DRYNESS_PERCENTAGE test_config"
    by (simp add: test_config_def module_config_def)
  show ?thesis
    unfolding main_loop_sent_reading v
    by (simp only: d body_a[OF assms] response_a) (simp add: world0_def)
qed

lemma sent_b:
  assumes "float_repr rt 76.3 = ascii ''76.3''" and "float_repr rt 60 = ascii ''60.0''"
  shows \<open>sent (snd (main_loop rt test_config (reading 50000) world0)) =
     [(get_client, lit ''HTTP/1.1 200 OK\<newline>Content-Length: 105\<newline>Content-Type: application/json\<newline>\<newline>{"is_plant_too_dry": true, "dryness_percent": 76.3, "plant": "Test Plant", "max_allowable_dryness": 60.0}\<newline>'')]\<close>
proof -
  have v: "(of_int (tenths (unat (50000 :: 16 word))) / 10 :: rat) = 76.3"
    by (simp add: tenths_def)
  have d: "(76.3 :: rat) > MAX_DRYNESS_PERCENTAGE test_config"
    by (simp add: test_config_def module_config_def)
  show ?thesis
    unfolding main_loop_sent_reading v
    by (simp only: d body_b[OF assms] response_b) (simp add: world0_def)
qed

text \<open>
  C5, as stated: the body has its keys in the order of the source, \<open>plant\<close> first. The
  dictionary iterates in the order of its slots, and the body starts with
  \<open>is_plant_too_dry\<close>.
\<close>

theorem source_key_order_counterexample:
  \<open>get_soil_data test_config (reading 20000) = Inr (30.5, False)
   \<and> result_json plain_runtime test_config 30.5 False \<noteq>
       ascii ''{"plant": "Test Plant", "dryness_percent": 30.5, "max_allowable_dryness": 60.0, "is_plant_too_dry": false}''\<close>
proof -
  have \<open>result_json plain_runtime test_config 30.5 False = ascii ''{"is_plant_too_dry": false, "dryness_percent": 30.5, "plant": "Test Plant", "max_allowable_dryness": 60.0}''\<close>
    by (rule body_a) (simp_all only: float_repr_plain one_decimal_values)
  then show ?thesis using soil_20000 by (simp add: ascii_def)
qed

text \<open>
  C5, amended. With threshold 60.0 and plant name "Test Plant", on a build that writes
  the floats 30.5, 60.0 and 76.3 with these digits: a raw reading of 20000 gives 30.5 and
  not too dry, the JSON body is the string below, with the keys in the iteration order of
  the dictionary (\<open>is_plant_too_dry\<close>, \<open>dryness_percent\<close>, \<open>plant\<close>,
  \<open>max_allowable_dryness\<close>), and \<open>main_loop\<close> sends it in the response; a raw reading of
  50000 gives 76.3 and too dry, and the body reports \<open>"is_plant_too_dry": true\<close>.
\<close>

theorem end_to_end_scenarios:
  assumes "float_repr rt 30.5 = ascii ''30.5''" and "float_repr rt 60 = ascii ''60.0''"
    and "float_repr rt 76.3 = ascii ''76.3''"
  shows \<open>get_soil_data test_config (reading 20000) = Inr (30.5, False)
   \<and> result_json rt test_config 30.5 False =
       ascii ''{"is_plant_too_dry": false, "dryness_percent": 30.5, "plant": "Test Plant", "max_allowable_dryness": 60.0}''
   \<and> sent (snd (main_loop rt test_config (reading 20000) world0)) =
       [(get_client, lit ''HTTP/1.1 200 OK\<newline>Content-Length: 106\<newline>Content-Type: application/json\<newline>\<newline>{"is_plant_too_dry": false, "dryness_percent": 30.5, "plant": "Test Plant", "max_allowable_dryness": 60.0}\<newline>'')]
   \<and> get_soil_data test_config (reading 50000) = Inr (76.3, True)
   \<and> result_json rt test_config 76.3 True =
       ascii ''{"is_plant_too_dry": true, "dryness_percent": 76.3, "plant": "Test Plant", "max_allowable_dryness": 60.0}''
   \<and> sent (snd (main_loop rt test_config (reading 50000) world0)) =
       [(get_client, lit ''HTTP/1.1 200 OK\<newline>Content-Length: 105\<newline>Content-Type: application/json\<newline>\<newline>{"is_plant_too_dry": true, "dryness_percent": 76.3, "plant": "Test Plant", "max_allowable_dryness": 60.0}\<newline>'')]\<close>
  using soil_20000 soil_50000 body_a[OF assms(1,2)] body_b[OF assms(3,2)]
    sent_a[OF assms(1,2)] sent_b[OF assms(3,2)]
  by (intro conjI)

theorem end_to_end_scenarios_witness:
  \<open>float_repr plain_runtime 30.5 = ascii ''30.5''
   \<and> float_repr plain_runtime 60 = ascii ''60.0''
   \<and> float_repr plain_runtime 76.3 = ascii ''76.3''
   \<and> result_json plain_runtime test_config 30.5 False =
       ascii ''{"is_plant_too_dry": false, "dryness_percent": 30.5, "plant": "Test Plant", "max_allowable_dryness": 60.0}''
   \<and> result_json plain_runtime test_config 76.3 True =
       ascii ''{"is_plant_too_dry": true, "dryness_percent": 76.3, "plant": "Test Plant", "max_allowable_dryness": 60.0}''\<close>
proof -
  have f: "float_repr plain_runtime 30.5 = ascii ''30.5''"
    "float_repr plain_runtime 60 = ascii ''60.0''"
    "float_repr plain_runtime 76.3 = ascii ''76.3''"
    by (simp_all only: float_repr_plain one_decimal_values)
  from end_to_end_scenarios[OF f] f show ?thesis by (intro conjI) simp_all
qed

section \<open>The \<open>Content-Length\<close> header\<close>

lemma escape_json_below_128: "c < 128 \<Longrightarrow> list_all (\<lambda>c. c < 128) (escape_json c)"
proof -
  have "\<And>d. d < 16 \<Longrightarrow> hex_digit d < 128"
    using hex_digit_range by fastforce
  then show "c < 128 \<Longrightarrow> list_all (\<lambda>c. c < 128) (escape_json c)"
    by (simp add: escape_json_def u_escape_def)
qed

lemma mp_str_print_json_below_128:
  "list_all (\<lambda>c. c < 128) s \<Longrightarrow> list_all (\<lambda>c. c < 128) (mp_str_print_json s)"
  by (induction s) (simp_all add: mp_str_print_json_def escape_json_below_128)

lemma float_repr_below_128: "list_all (\<lambda>c. c < 128) (float_repr rt x)"
  by (rule printable_below_128[OF printable_float_repr])

text \<open>
  For a plant name within ASCII the JSON string is within ASCII, and its number of
  characters is its number of bytes.
\<close>

lemma content_length_ascii_name:
  assumes "list_all (\<lambda>c. c < 128) (PLANT_NAME cfg)"
  shows "content_length (result_json rt cfg dryness is_too_dry) =
     str_nat (length (encode_utf8 (result_json rt cfg dryness is_too_dry)))"
proof -
  have "list_all (\<lambda>c. c < 128) (result_json rt cfg dryness is_too_dry)"
    unfolding result_json_def json_dumps_def display_order
    using mp_str_print_json_below_128[OF assms] float_repr_below_128
    by (simp add: json_item_def mp_str_print_json_below_128 ascii_def)
  then show ?thesis
    by (simp add: content_length_def encode_utf8_below_128)
qed

lemma body_cafe:
  \<open>result_json plain_runtime cafe_config 30.5 False =
    ascii ''{"is_plant_too_dry": false, "dryness_percent": 30.5, "plant": "Caf'' @ [233] @ ascii ''", "max_allowable_dryness": 60.0}''\<close>
  unfolding result_json_def json_dumps_def display_order
  by (simp add: json_eval cafe_config_def module_config_def float_repr_plain one_decimal_values[simplified]
      one_decimal_def str_nat.simps)

lemma cafe_bytes:
  \<open>encode_utf8 (ascii ''{"is_plant_too_dry": false, "dryness_percent": 30.5, "plant": "Caf'' @ [233] @ ascii ''", "max_allowable_dryness": 60.0}'') =
    lit ''{"is_plant_too_dry": false, "dryness_percent": 30.5, "plant": "Caf'' @ [195, 169] @ lit ''", "max_allowable_dryness": 60.0}''\<close>
  by (simp add: encode_utf8_def utf8_char_def ascii_def lit_def)

lemma cafe_length:
  \<open>length (ascii ''{"is_plant_too_dry": false, "dryness_percent": 30.5, "plant": "Caf'' @ [233] @ ascii ''", "max_allowable_dryness": 60.0}'') = 100\<close>
  by (simp add: ascii_def)

text \<open>
  C2. The \<open>Content-Length\<close> header is meant to give the number of bytes of the body. The
  program writes \<open>str(len(result))\<close>, the number of characters of the JSON string, and
  \<open>json.dumps\<close> leaves a character outside ASCII as it is. With the plant name "Cafe"
  with an acute accent, four characters and five bytes, the response that \<open>main_loop\<close>
  sends announces 100 bytes and carries a body of 101.
\<close>

theorem content_length_undercounts:
  \<open>length (PLANT_NAME cafe_config) = 4
   \<and> length (encode_utf8 (PLANT_NAME cafe_config)) = 5
   \<and> content_length (result_json plain_runtime cafe_config 30.5 False) = ascii ''100''
   \<and> length (encode_utf8 (result_json plain_runtime cafe_config 30.5 False)) = 101
   \<and> sent (snd (main_loop plain_runtime cafe_config (reading 20000) world0)) =
       [(get_client,
         lit ''HTTP/1.1 200 OK\<newline>Content-Length: 100\<newline>Content-Type: application/json\<newline>\<newline>''
         @ lit ''{"is_plant_too_dry": false, "dryness_percent": 30.5, "plant": "Caf'' @ [195, 169] @ lit ''", "max_allowable_dryness": 60.0}''
         @ lit ''\<newline>'')]\<close>
proof -
  have n: "length (PLANT_NAME cafe_config) = 4" "length (encode_utf8 (PLANT_NAME cafe_config)) = 5"
    by (simp_all add: cafe_config_def module_config_def encode_utf8_def utf8_char_def)
  have c: "content_length (result_json plain_runtime cafe_config 30.5 False) = ascii ''100''"
    unfolding body_cafe content_length_def cafe_length by (simp add: str_nat.simps ascii_def)
  have l: "length (encode_utf8 (result_json plain_runtime cafe_config 30.5 False)) = 101"
    unfolding body_cafe cafe_bytes by (simp add: lit_def)
  have v: "(of_int (tenths (unat (20000 :: 16 word))) / 10 :: rat) = 30.5"
    by (simp add: tenths_def)
  have d: "\<not> (30.5 :: rat) > MAX_DRYNESS_PERCENTAGE cafe_config"
    by (simp add: cafe_config_def module_config_def)
  have s: \<open>sent (snd (main_loop plain_runtime cafe_config (reading 20000) world0)) =
       [(get_client,
         lit ''HTTP/1.1 200 OK\<newline>Content-Length: 100\<newline>Content-Type: application/json\<newline>\<newline>''
         @ lit ''{"is_plant_too_dry": false, "dryness_percent": 30.5, "plant": "Caf'' @ [195, 169] @ lit ''", "max_allowable_dryness": 60.0}''
         @ lit ''\<newline>'')]\<close>
    unfolding main_loop_sent_reading v
    apply (simp only: d)
    apply (simp only: response_bytes c)
    apply (simp only: body_cafe cafe_bytes bytes_of_ascii)
    apply (simp add: world0_def lit_def)
    done
  from n c l s show ?thesis by (intro conjI)
qed

section \<open>The framing of the response\<close>

text \<open>
  C8. When the calls up to \<open>client.send\<close> do not raise, \<open>main_loop\<close> writes to the
  client exactly: the status line \<open>HTTP/1.1 200 OK\<close>, the \<open>Content-Length\<close> header,
  the header \<open>Content-Type: application/json\<close>, an empty line, the JSON string and a
  final line feed. Split at the line feeds (byte 10) the response has these six pieces
  and no other, and no carriage return (byte 13) occurs in it.
\<close>

theorem response_framing:
  assumes "list_all (\<lambda>s. fails e s = None)
             [Accept, Print_request, Read_u16, Json_dumps, Build_response, Send]"
  shows "\<exists>dryness is_too_dry result response.
       get_soil_data cfg e = Inr (dryness, is_too_dry)
     \<and> result = result_json rt cfg dryness is_too_dry
     \<and> sent (snd (main_loop rt cfg e w)) = sent w @ [(fst (accepted e), response)]
     \<and> response =
         lit ''HTTP/1.1 200 OK'' @ [10]
         @ lit ''Content-Length: '' @ map of_nat (content_length result) @ [10]
         @ lit ''Content-Type: application/json'' @ [10]
         @ [10]
         @ encode_utf8 result @ [10]
     \<and> split_on 10 response =
         [lit ''HTTP/1.1 200 OK'',
          lit ''Content-Length: '' @ map of_nat (content_length result),
          lit ''Content-Type: application/json'',
          [],
          encode_utf8 result,
          []]
     \<and> 13 \<notin> set response"
proof -
  let ?dry = "py_round (of_nat (unat (raw e)) / 65535 * 100) 1"
  let ?result = "result_json rt cfg ?dry (?dry > MAX_DRYNESS_PERCENTAGE cfg)"
  let ?response = "encode_utf8 (response_text ?result)"
  from assms have ok: "fails e Accept = None" "fails e Print_request = None"
    "fails e Read_u16 = None" "fails e Json_dumps = None" "fails e Build_response = None"
    "fails e Send = None" by simp_all
  have g: "get_soil_data cfg e = Inr (?dry, ?dry > MAX_DRYNESS_PERCENTAGE cfg)"
    by (rule get_soil_data_ok[OF ok(3)])
  have s: "sent (snd (main_loop rt cfg e w)) = sent w @ [(fst (accepted e), ?response)]"
    unfolding main_loop_sent_try try_block_sent using ok by (simp only: Let_def) simp
  note r = response_lines[OF no_control_result_json[of rt cfg ?dry "?dry > MAX_DRYNESS_PERCENTAGE cfg"]]
  have b: "?response =
         lit ''HTTP/1.1 200 OK'' @ [10]
         @ lit ''Content-Length: '' @ map of_nat (content_length ?result) @ [10]
         @ lit ''Content-Type: application/json'' @ [10]
         @ [10]
         @ encode_utf8 ?result @ [10]"
    by (rule response_bytes)
  show ?thesis
    using g s r b by blast
qed

lemma content_length_a: \<open>content_length (ascii ''{"is_plant_too_dry": false, "dryness_percent": 30.5, "plant": "Test Plant", "max_allowable_dryness": 60.0}'') = ascii ''106''\<close>
  unfolding content_length_def length_ascii by (simp add: str_nat.simps ascii_def)

lemma encode_a: \<open>encode_utf8 (ascii ''{"is_plant_too_dry": false, "dryness_percent": 30.5, "plant": "Test Plant", "max_allowable_dryness": 60.0}'') = lit ''{"is_plant_too_dry": false, "dryness_percent": 30.5, "plant": "Test Plant", "max_allowable_dryness": 60.0}''\<close>
  by (simp add: encode_utf8_def utf8_char_def ascii_def lit_def)

theorem response_framing_witness:
  \<open>list_all (\<lambda>s. fails (reading 20000) s = None)
      [Accept, Print_request, Read_u16, Json_dumps, Build_response, Send]
   \<and> (\<exists>response.
        sent (snd (main_loop plain_runtime test_config (reading 20000) world0))
          = [(get_client, response)]
      \<and> split_on 10 response =
          [lit ''HTTP/1.1 200 OK'',
           lit ''Content-Length: 106'',
           lit ''Content-Type: application/json'',
           [],
           lit ''{"is_plant_too_dry": false, "dryness_percent": 30.5, "plant": "Test Plant", "max_allowable_dryness": 60.0}'',
           []]
      \<and> 13 \<notin> set response)\<close>
proof -
  have ok: "list_all (\<lambda>s. fails (reading 20000) s = None)
      [Accept, Print_request, Read_u16, Json_dumps, Build_response, Send]"
    by (simp add: reading_simps)
  have cl: "lit ''Content-Length: '' @ lit ''106'' = lit ''Content-Length: 106''"
    by (simp add: lit_def)
  have body: \<open>result_json plain_runtime test_config 30.5 False = ascii ''{"is_plant_too_dry": false, "dryness_percent": 30.5, "plant": "Test Plant", "max_allowable_dryness": 60.0}''\<close>
    by (rule body_a) (simp_all only: float_repr_plain one_decimal_values)
  from response_framing[OF ok, of test_config plain_runtime world0]
  obtain response where
    "sent (snd (main_loop plain_runtime test_config (reading 20000) world0)) =
       sent world0 @ [(fst (accepted (reading 20000)), response)]"
    "split_on 10 response =
       [lit ''HTTP/1.1 200 OK'',
        lit ''Content-Length: ''
          @ map of_nat (content_length (result_json plain_runtime test_config 30.5 False)),
        lit ''Content-Type: application/json'', [],
        encode_utf8 (result_json plain_runtime test_config 30.5 False), []]"
    "13 \<notin> set response"
    unfolding soil_20000 by blast
  then show ?thesis
    using ok unfolding body content_length_a encode_a bytes_of_ascii cl
    by (auto simp add: reading_simps world0_def)
qed

section \<open>The request handler\<close>

text \<open>
  C9. The response does not depend on the request. Take two runs of \<open>main_loop\<close> with
  the same configuration and the same raw reading, which both get as far as
  \<open>client.send\<close> or both do not. They write the same bytes, whatever the two accepted
  connections, their request bytes and their remote addresses are.
\<close>

theorem response_ignores_request:
  assumes "raw e1 = raw e2"
    and "list_all (\<lambda>s. fails e1 s = None)
           [Accept, Print_request, Read_u16, Json_dumps, Build_response, Send]
       = list_all (\<lambda>s. fails e2 s = None)
           [Accept, Print_request, Read_u16, Json_dumps, Build_response, Send]"
  shows "\<exists>written.
      map snd (sent (snd (main_loop rt cfg e1 w1))) = map snd (sent w1) @ written
    \<and> map snd (sent (snd (main_loop rt cfg e2 w2))) = map snd (sent w2) @ written"
  unfolding main_loop_sent_try try_block_sent using assms by (auto simp add: Let_def)

lemma post_reading_simps:
  "fails (post_reading r) s = None" "raw (post_reading r) = r"
  "accepted (post_reading r) = (post_client, (ascii ''10.0.0.7'', 4242))"
  by (simp_all add: post_reading_def no_failure_def)

theorem response_ignores_request_witness:
  "raw (reading 20000) = raw (post_reading 20000)
   \<and> list_all (\<lambda>s. fails (reading 20000) s = None)
        [Accept, Print_request, Read_u16, Json_dumps, Build_response, Send]
   \<and> list_all (\<lambda>s. fails (post_reading 20000) s = None)
        [Accept, Print_request, Read_u16, Json_dumps, Build_response, Send]
   \<and> request (fst (accepted (reading 20000))) \<noteq> request (fst (accepted (post_reading 20000)))
   \<and> map snd (sent (snd (main_loop plain_runtime test_config (reading 20000) world0)))
       = map snd (sent (snd (main_loop plain_runtime test_config (post_reading 20000) world0)))
   \<and> length (sent (snd (main_loop plain_runtime test_config (post_reading 20000) world0))) = 1"
proof -
  have r: "raw (reading 20000) = raw (post_reading 20000)"
    by (simp add: reading_simps post_reading_simps)
  have f1: "list_all (\<lambda>s. fails (reading 20000) s = None)
        [Accept, Print_request, Read_u16, Json_dumps, Build_response, Send]"
    by (simp add: reading_simps)
  have f2: "list_all (\<lambda>s. fails (post_reading 20000) s = None)
        [Accept, Print_request, Read_u16, Json_dumps, Build_response, Send]"
    by (simp add: post_reading_simps)
  have f: "list_all (\<lambda>s. fails (reading 20000) s = None)
        [Accept, Print_request, Read_u16, Json_dumps, Build_response, Send]
      = list_all (\<lambda>s. fails (post_reading 20000) s = None)
        [Accept, Print_request, Read_u16, Json_dumps, Build_response, Send]"
    using f1 f2 by simp
  have q: "request (fst (accepted (reading 20000))) \<noteq> request (fst (accepted (post_reading 20000)))"
    by (simp add: reading_simps post_reading_simps get_client_def post_client_def lit_def)
  have n: "length (sent (snd (main_loop plain_runtime test_config (post_reading 20000) world0))) = 1"
    unfolding main_loop_sent_try try_block_sent by (simp add: post_reading_simps world0_def Let_def)
  from response_ignores_request[OF r f, of plain_runtime test_config world0 world0] r f1 f2 q n
  show ?thesis by (auto simp add: world0_def)
qed

text \<open>
  C1. \<open>main_loop\<close> is meant never to raise. When \<open>listener.accept()\<close> raises, the
  \<open>except\<close> block calls \<open>client.close()\<close> with \<open>client\<close> unbound: \<open>main_loop\<close> raises
  \<open>UnboundLocalError\<close>, nothing is logged or closed, and the loop of \<open>main\<close> ends
  without serving the next request.
\<close>

theorem accept_failure_escapes:
  "main_loop plain_runtime module_config accept_fails world0 = (Inl UnboundLocalError, world0)
   \<and> serve plain_runtime module_config [accept_fails, reading 20000] world0
       = (Inl UnboundLocalError, world0)"
proof -
  have a: "fails accept_fails Accept = Some (OSError 103)"
    by (simp add: accept_fails_def only_def)
  have "main_loop plain_runtime module_config accept_fails world0 = (Inl UnboundLocalError, world0)"
    by (simp add: main_loop_def try_block_accept_fails[OF a] except_block_def)
  then show ?thesis by simp
qed

text \<open>
  C10, as stated: every exception raised after \<open>accept\<close> has bound the client is
  handled, the connection closed, the error logged, and \<open>main_loop\<close> returns. It fails
  when the \<open>except\<close> block raises in its turn: here \<open>client.send\<close> raises, then the
  \<open>client.close()\<close> of the \<open>except\<close> block raises, and that exception leaves
  \<open>main_loop\<close>; the connection is not closed and nothing is logged about the error.
  It also fails for an exception that is not an \<open>Exception\<close>: a \<open>KeyboardInterrupt\<close>
  during the pause leaves \<open>main_loop\<close> with the connection open.
\<close>

theorem close_and_continue_counterexample:
  "fails send_and_close_fail Accept = None
   \<and> first_raise send_and_close_fail = Some (OSError 104)
   \<and> is_exception (OSError 104)
   \<and> fst (main_loop plain_runtime module_config send_and_close_fail world0) = Inl (OSError 9)
   \<and> closed (snd (main_loop plain_runtime module_config send_and_close_fail world0)) = []
   \<and> console (snd (main_loop plain_runtime module_config send_and_close_fail world0))
       = [Request_received (ascii ''192.168.1.20'')]
   \<and> fails interrupted Accept = None
   \<and> first_raise interrupted = Some KeyboardInterrupt
   \<and> fst (main_loop plain_runtime module_config interrupted world0) = Inl KeyboardInterrupt
   \<and> closed (snd (main_loop plain_runtime module_config interrupted world0)) = []"
proof -
  have i: "fails interrupted Accept = None" "first_raise interrupted = Some KeyboardInterrupt"
    by (simp_all add: interrupted_def only_def first_raise_unfold)
  obtain w1 where ti: "try_block plain_runtime module_config interrupted world0 =
      (Some (fst (accepted interrupted)), Some KeyboardInterrupt, w1)"
    using try_block_raise[OF i(1), of plain_runtime module_config world0] i(2) by auto
  have ci: "closed w1 = []"
    using try_block_closed[of plain_runtime module_config interrupted world0] i ti
    by (simp add: world0_def)
  have mi: "main_loop plain_runtime module_config interrupted world0 = (Inl KeyboardInterrupt, w1)"
    by (simp add: main_loop_def ti)
  have f: "fails send_and_close_fail Accept = None" "fails send_and_close_fail Send = Some (OSError 104)"
    "fails send_and_close_fail Handler_close = Some (OSError 9)"
    "fails send_and_close_fail Print_request = None" "fails send_and_close_fail Read_u16 = None"
    "fails send_and_close_fail Json_dumps = None" "fails send_and_close_fail Build_response = None"
    by (simp_all add: send_and_close_fail_def)
  have a: "accepted send_and_close_fail = (get_client, (ascii ''192.168.1.20'', 50314))"
    by (simp add: send_and_close_fail_def reading_def)
  have r: "first_raise send_and_close_fail = Some (OSError 104)"
    by (simp add: first_raise_unfold f)
  have t: "try_block plain_runtime module_config send_and_close_fail world0 =
      (Some get_client, Some (OSError 104),
       py_print (Request_received (ascii ''192.168.1.20'')) world0)"
    by (simp add: try_block_def f a get_soil_data_def Let_def)
  have m: "main_loop plain_runtime module_config send_and_close_fail world0 =
      (Inl (OSError 9), py_print (Request_received (ascii ''192.168.1.20'')) world0)"
    by (simp add: main_loop_def t except_block_def f)
  show ?thesis
    using f(1) r i ci unfolding m mi by (simp add: py_print_def world0_def)
qed

text \<open>
  C10, amended. Once \<open>accept\<close> has returned the client connection, an \<open>Exception\<close>
  raised by any later call of the \<open>try\<close> block (the first print, the sensor read, the
  serialisation, the send, the second print, the pause, the close) is handled, provided
  the two calls of the \<open>except\<close> block do not raise themselves: the \<open>except\<close> block closes
  that connection and logs the exception, \<open>main_loop\<close> returns normally and the loop of
  \<open>main\<close> goes on with the next request. The guarantee starts with the return of
  \<open>accept\<close>: when \<open>accept\<close> itself raises an \<open>Exception\<close>, \<open>main_loop\<close> raises.
\<close>

theorem close_and_continue_after_accept:
  "(fails e Accept = None \<longrightarrow> first_raise e = Some err \<longrightarrow> is_exception err
      \<longrightarrow> fails e Handler_close = None \<longrightarrow> fails e Handler_print = None
      \<longrightarrow> (\<exists>w'. main_loop rt cfg e w = (Inr (), w')
            \<and> closed w' = closed w @ [fst (accepted e)]
            \<and> last (console w') = Connection_closed err
            \<and> serve rt cfg (e # es) w = serve rt cfg es w'))
   \<and> (fails e Accept = Some err \<longrightarrow> is_exception err
      \<longrightarrow> main_loop rt cfg e w = (Inl UnboundLocalError, w))"
proof (intro conjI impI)
  assume a: "fails e Accept = None" and r: "first_raise e = Some err" and x: "is_exception err"
    and hc: "fails e Handler_close = None" and hp: "fails e Handler_print = None"
  obtain w1 where t: "try_block rt cfg e w = (Some (fst (accepted e)), Some err, w1)"
    using try_block_raise[OF a, of rt cfg w] r by auto
  have c: "closed w1 = closed w"
    using try_block_closed[of rt cfg e w] a r t by simp
  let ?w' = "py_print (Connection_closed err) (close (fst (accepted e)) w1)"
  have m: "main_loop rt cfg e w = (Inr (), ?w')"
    by (simp add: main_loop_def t except_block_def hc hp x)
  show "\<exists>w'. main_loop rt cfg e w = (Inr (), w')
            \<and> closed w' = closed w @ [fst (accepted e)]
            \<and> last (console w') = Connection_closed err
            \<and> serve rt cfg (e # es) w = serve rt cfg es w'"
    using m c by (simp add: closed_simps console_simps)
next
  assume "fails e Accept = Some err" and "is_exception err"
  then show "main_loop rt cfg e w = (Inl UnboundLocalError, w)"
    by (simp add: main_loop_def try_block_accept_fails except_block_def)
qed

theorem close_and_continue_after_accept_witness:
  "fails send_fails Accept = None \<and> first_raise send_fails = Some (OSError 104)
   \<and> is_exception (OSError 104)
   \<and> fails send_fails Handler_close = None \<and> fails send_fails Handler_print = None
   \<and> fst (main_loop plain_runtime module_config send_fails world0) = Inr ()
   \<and> closed (snd (main_loop plain_runtime module_config send_fails world0)) = [get_client]
   \<and> last (console (snd (main_loop plain_runtime module_config send_fails world0)))
       = Connection_closed (OSError 104)
   \<and> sent (snd (main_loop plain_runtime module_config send_fails world0)) = []
   \<and> fails accept_fails Accept = Some (OSError 103)
   \<and> is_exception (OSError 103)
   \<and> main_loop plain_runtime module_config accept_fails world0 = (Inl UnboundLocalError, world0)"
proof -
  have s: "fails send_fails Accept = None" "first_raise send_fails = Some (OSError 104)"
    "fails send_fails Handler_close = None" "fails send_fails Handler_print = None"
    by (simp_all add: send_fails_def only_def first_raise_unfold)
  have a: "fails accept_fails Accept = Some (OSError 103)"
    by (simp add: accept_fails_def only_def)
  have n: "sent (snd (main_loop plain_runtime module_config send_fails world0)) = []"
    unfolding main_loop_sent_try try_block_sent by (simp add: send_fails_def only_def world0_def)
  have g: "fst (accepted send_fails) = get_client"
    by (simp add: send_fails_def reading_def)
  from close_and_continue_after_accept[of send_fails "OSError 104" plain_runtime module_config world0 "[]"]
       close_and_continue_after_accept[of accept_fails "OSError 103" plain_runtime module_config world0 "[]"]
       s a n g
  show ?thesis by (auto simp add: world0_def)
qed

section \<open>The sensor reader\<close>

text \<open>
  C6. For every 16-bit raw reading, \<open>get_soil_data\<close> returns the pair
  \<open>(percent, too_dry)\<close> with \<open>percent = round(raw / 65535 * 100, 1)\<close> and
  \<open>too_dry = percent > threshold\<close>, so the pair is a function of the reading and the
  threshold alone, and \<open>percent\<close> lies between 0 and 100. A reading of 0 gives 0.0, and
  not too dry for any positive threshold; a reading of 65535 gives 100.0, and too dry for
  any threshold below 100.
\<close>

theorem get_soil_data_range:
  assumes "fails e Read_u16 = None"
  shows "\<exists>percent too_dry.
     get_soil_data cfg e = Inr (percent, too_dry)
     \<and> percent = py_round (of_nat (unat (raw e)) / 65535 * 100) 1
     \<and> too_dry = (percent > MAX_DRYNESS_PERCENTAGE cfg)
     \<and> 0 \<le> percent \<and> percent \<le> 100
     \<and> (raw e = 0 \<longrightarrow> percent = 0 \<and> (0 < MAX_DRYNESS_PERCENTAGE cfg \<longrightarrow> \<not> too_dry))
     \<and> (raw e = 65535 \<longrightarrow> percent = 100 \<and> (MAX_DRYNESS_PERCENTAGE cfg < 100 \<longrightarrow> too_dry))"
proof -
  let ?p = "py_round (of_nat (unat (raw e)) / 65535 * 100) 1"
  have rng: "0 \<le> ?p \<and> ?p \<le> 100" by (rule percent_range[OF unat16])
  have lo: "raw e = 0 \<Longrightarrow> ?p = 0" using percent_at_0 by simp
  have hi: "raw e = 65535 \<Longrightarrow> ?p = 100" using percent_at_65535 by simp
  show ?thesis
    unfolding get_soil_data_ok[OF assms] using rng lo hi by auto
qed

theorem get_soil_data_range_witness:
  "fails (reading 0) Read_u16 = None \<and> fails (reading 65535) Read_u16 = None
   \<and> 0 < MAX_DRYNESS_PERCENTAGE module_config \<and> MAX_DRYNESS_PERCENTAGE module_config < 100
   \<and> get_soil_data module_config (reading 0) = Inr (0, False)
   \<and> get_soil_data module_config (reading 65535) = Inr (100, True)"
  using get_soil_data_range[of "reading 0" module_config]
        get_soil_data_range[of "reading 65535" module_config]
  by (auto simp add: reading_simps module_config_def)

text \<open>
  C7. The comparison is strictly greater-than: with threshold 60.0, a reading whose
  percentage is exactly 60.0 is not too dry.
\<close>

theorem strict_threshold:
  assumes "get_soil_data cfg e = Inr (percent, too_dry)"
    and "MAX_DRYNESS_PERCENTAGE cfg = 60" and "percent = 60"
  shows "\<not> too_dry"
  using assms by (auto simp: get_soil_data_def Let_def split: option.splits)

theorem strict_threshold_witness:
  "get_soil_data module_config (reading 39321) = Inr (60, False)
   \<and> MAX_DRYNESS_PERCENTAGE module_config = 60"
proof -
  have m: "MAX_DRYNESS_PERCENTAGE module_config = 60" by (simp add: module_config_def)
  obtain d where g: "get_soil_data module_config (reading 39321) = Inr (60, d)"
    by (simp add: get_soil_data_reading tenths_def)
  from strict_threshold[OF g m refl] have "\<not> d" .
  with g m show ?thesis by simp
qed

section \<open>The network bootstrapper\<close>

lemma wait_loop_connecting:
  assumes c: "\<forall>k. 0 \<le> status we k \<and> status we k < 3"
  shows "wait_loop we n w =
     w\<lparr>console := console w @ replicate (nat n) Waiting,
       slept := slept w + nat n,
       status_reads := status_reads w + 2 * nat n\<rparr>"
proof (induction "nat n" arbitrary: n w)
  case 0
  then have "\<not> n > 0" by simp
  then show ?case using 0 by (simp add: wait_loop.simps[of we n w])
next
  case (Suc k)
  then have pos: "n > 0" and k: "k = nat (n - 1)" by linarith+
  have n: "nat n = Suc (nat (n - 1))" using pos by linarith
  have s1: "\<not> status we (status_reads w) < 0" and s2: "\<not> 3 \<le> status we (Suc (status_reads w))"
    using c by (simp_all add: not_less not_le)
  have step: "wait_loop we n w =
      wait_loop we (n - 1) (sleep 1 (py_print Waiting (w\<lparr>status_reads := status_reads w + 2\<rparr>)))"
    using pos s1 s2 by (simp add: wait_loop.simps[of we n w] read_status_def)
  show ?case
    unfolding step Suc.hyps(1)[OF k] n
    by (simp add: sleep_def py_print_def replicate_append_same)
qed

lemma wait_loop_reads: "status_reads w \<le> status_reads (wait_loop we n w)"
proof (induction "nat n" arbitrary: n w)
  case 0
  then have "\<not> n > 0" by simp
  then show ?case by (simp add: wait_loop.simps[of we n w])
next
  case (Suc k)
  then have pos: "n > 0" and k: "k = nat (n - 1)" by linarith+
  let ?w' = "sleep 1 (py_print Waiting (w\<lparr>status_reads := status_reads w + 1 + 1\<rparr>))"
  have "status_reads ?w' \<le> status_reads (wait_loop we (n - 1) ?w')"
    by (rule Suc.hyps(1)[OF k])
  then show ?case
    using pos by (simp add: wait_loop.simps[of we n w] read_status_def sleep_def py_print_def)
qed


lemma world_simps:
  "status_reads (py_print ev w) = status_reads w" "status_reads (sleep n w) = status_reads w"
  "slept (py_print ev w) = slept w" "slept (sleep n w) = slept w + n"
  by (simp_all add: py_print_def sleep_def)

text \<open>
  C3. If every call of \<open>wlan.status()\<close> returns a value of the connecting class
  (0, 1 or 2), \<open>connect_to_wifi\<close> raises the \<open>RuntimeError\<close> after exactly
  \<open>MAX_WIFI_CONNECTION_ATTEMPTS\<close> poll attempts: it has printed the waiting line and slept
  one second that many times, no more and no fewer. Each attempt reads the status twice
  (the two calls of the loop's condition), and one more read follows the loop.
\<close>

theorem retry_exhaustion:
  assumes "\<forall>k. 0 \<le> status we k \<and> status we k < 3"
  shows "\<exists>w'. connect_to_wifi cfg we w =
        (Inl (RuntimeError (ascii ''Network connection failed!'')), w')
     \<and> console w' = console w @ [Connecting (SSID cfg), Mac_address (mac we)]
          @ replicate (nat (MAX_WIFI_CONNECTION_ATTEMPTS cfg)) Waiting
     \<and> slept w' = slept w + nat (MAX_WIFI_CONNECTION_ATTEMPTS cfg)
     \<and> status_reads w' = status_reads w + 2 * nat (MAX_WIFI_CONNECTION_ATTEMPTS cfg) + 1"
proof -
  have "status we (status_reads w + 2 * nat (MAX_WIFI_CONNECTION_ATTEMPTS cfg)) \<noteq> 3"
    using assms by (metis less_irrefl)
  then show ?thesis
    by (simp add: connect_to_wifi_def wait_loop_connecting[OF assms] read_status_def
        py_print_def Let_def)
qed

theorem retry_exhaustion_witness:
  "(\<forall>k. 0 \<le> status stuck_wifi k \<and> status stuck_wifi k < 3)
   \<and> MAX_WIFI_CONNECTION_ATTEMPTS module_config = 30
   \<and> fst (connect_to_wifi module_config stuck_wifi world0) =
        Inl (RuntimeError (ascii ''Network connection failed!''))
   \<and> length (filter (\<lambda>ev. ev = Waiting) (console (snd (connect_to_wifi module_config stuck_wifi world0)))) = 30
   \<and> slept (snd (connect_to_wifi module_config stuck_wifi world0)) = 30
   \<and> status_reads (snd (connect_to_wifi module_config stuck_wifi world0)) = 61"
proof -
  have s: "\<forall>k. 0 \<le> status stuck_wifi k \<and> status stuck_wifi k < 3"
    by (simp add: stuck_wifi_def)
  have m: "MAX_WIFI_CONNECTION_ATTEMPTS module_config = 30"
    by (simp add: module_config_def)
  from retry_exhaustion[OF s, of module_config world0] s m
  show ?thesis by (auto simp add: world0_def)
qed

text \<open>
  C4. Whatever values \<open>wlan.status()\<close> returns, \<open>connect_to_wifi\<close> returns the
  address, the first component of \<open>wlan.ifconfig()\<close>, if and only if the status read
  after the loop, which is the last read it makes, is 3; otherwise it raises the
  \<open>RuntimeError\<close>. The witness runs an interface that joins and one that reports a
  failure.
\<close>

theorem connect_result:
  "\<exists>w'. status_reads w < status_reads w'
     \<and> connect_to_wifi cfg we w =
         (if status we (status_reads w' - 1) = 3 then Inr (fst (ifconfig we))
          else Inl (RuntimeError (ascii ''Network connection failed!'')), w')"
proof -
  let ?w0 = "py_print (Mac_address (mac we)) (py_print (Connecting (SSID cfg)) w)"
  let ?w1 = "wait_loop we (MAX_WIFI_CONNECTION_ATTEMPTS cfg) ?w0"
  have "status_reads w \<le> status_reads ?w1"
    using wait_loop_reads[of ?w0 we "MAX_WIFI_CONNECTION_ATTEMPTS cfg"] by (simp add: world_simps)
  then show ?thesis
    by (simp add: connect_to_wifi_def read_status_def Let_def world_simps)
qed


lemma joining_run:
  "fst (connect_to_wifi module_config joining_wifi world0) = Inr (ascii ''192.168.1.50'')
   \<and> status_reads (snd (connect_to_wifi module_config joining_wifi world0)) = 7
   \<and> slept (snd (connect_to_wifi module_config joining_wifi world0)) = 2"
  by (simp add: connect_to_wifi_def wait_loop.simps read_status_def joining_wifi_def
      module_config_def world0_def py_print_def sleep_def Let_def)

lemma wrong_password_run:
  "fst (connect_to_wifi module_config wrong_password_wifi world0) =
     Inl (RuntimeError (ascii ''Network connection failed!''))
   \<and> status_reads (snd (connect_to_wifi module_config wrong_password_wifi world0)) = 4
   \<and> slept (snd (connect_to_wifi module_config wrong_password_wifi world0)) = 1"
  by (simp add: connect_to_wifi_def wait_loop.simps read_status_def wrong_password_wifi_def
      module_config_def world0_def py_print_def sleep_def Let_def)

theorem connect_result_witness:
  "status joining_wifi 6 = 3
   \<and> fst (connect_to_wifi module_config joining_wifi world0) = Inr (ascii ''192.168.1.50'')
   \<and> status_reads (snd (connect_to_wifi module_config joining_wifi world0)) = 7
   \<and> status wrong_password_wifi 3 = - 3
   \<and> fst (connect_to_wifi module_config wrong_password_wifi world0) =
       Inl (RuntimeError (ascii ''Network connection failed!''))
   \<and> status_reads (snd (connect_to_wifi module_config wrong_password_wifi world0)) = 4"
  using connect_result[of world0 module_config joining_wifi]
    connect_result[of world0 module_config wrong_password_wifi]
    joining_run wrong_password_run
  by (simp add: joining_wifi_def wrong_password_wifi_def)

end
